theory Spec2Isabelle
  imports Complex_Main "HOL-Library.AList"
begin

section \<open>The sliding-window analyzer of 123.py\<close>

text \<open>
  Time is the local wall clock of \<^verbatim>\<open>datetime.now()\<close>, counted in microseconds (the
  resolution of \<^verbatim>\<open>datetime\<close>) on an unbounded integer line; every operation that
  reads the clock takes the reading as its last argument \<open>now\<close>.  The range limits of
  \<^verbatim>\<open>datetime\<close> (years 1 to 9999) are outside the model.
\<close>

definition timedelta_minutes :: "int \<Rightarrow> int" where
  "timedelta_minutes minutes = minutes * 60000000"

text \<open>
  A Python \<^verbatim>\<open>str\<close> that carries text is a list of Unicode code points (\<open>pystr\<close>); \<open>py\<close>
  writes one from an ASCII literal.  Labels, identifiers and clock strings, which the program
  itself makes from ASCII, stay of type \<open>string\<close>.
\<close>

type_synonym pystr = "nat list"

definition py :: "string \<Rightarrow> pystr" where
  "py s = map of_char s"

text \<open>
  A message is the dict that \<^verbatim>\<open>poll_kinesis\<close> builds (\<^verbatim>\<open>review_obj\<close>) and that
  \<^verbatim>\<open>add_message\<close> stamps.  A key that may be absent is an \<open>option\<close>; the analyzer reads
  the keys \<^verbatim>\<open>actual_timestamp\<close>, \<^verbatim>\<open>full_text\<close> and \<^verbatim>\<open>sentiment\<close> through
  \<^verbatim>\<open>dict.get\<close> with a default.  Present values have the types \<^verbatim>\<open>poll_kinesis\<close> gives them.
\<close>

record message =
  review_text :: "pystr option"
  sentiment :: "string option"
  polarity :: "rat option"
  full_text :: "pystr option"
  timestamp :: "string option"
  word_count :: "nat option"
  actual_timestamp :: "int option"

text \<open>\<^verbatim>\<open>deque(maxlen=10000)\<close>: \<^verbatim>\<open>append\<close> adds on the right and, when the length then
  exceeds \<^verbatim>\<open>maxlen\<close>, pops one element on the left.\<close>

definition maxlen :: nat where
  "maxlen = 10000"

definition deque_append :: "'a list \<Rightarrow> 'a \<Rightarrow> 'a list" where
  "deque_append d x = (let d' = d @ [x] in if length d' > maxlen then tl d' else d')"

record SlidingWindowAnalyzer =
  all_messages :: "message list"

definition init_analyzer :: SlidingWindowAnalyzer where
  "init_analyzer = \<lparr>all_messages = []\<rparr>"

definition stamp :: "message \<Rightarrow> int \<Rightarrow> message" where
  "stamp message_data now = message_data\<lparr>actual_timestamp := Some now\<rparr>"

definition add_message :: "SlidingWindowAnalyzer \<Rightarrow> message \<Rightarrow> int \<Rightarrow> SlidingWindowAnalyzer" where
  "add_message self message_data now =
     self\<lparr>all_messages := deque_append (all_messages self) (stamp message_data now)\<rparr>"

text \<open>A sequence of ingest operations: each is a message with the clock reading of its call.\<close>

fun add_messages :: "SlidingWindowAnalyzer \<Rightarrow> (message \<times> int) list \<Rightarrow> SlidingWindowAnalyzer" where
  "add_messages self [] = self"
| "add_messages self ((m, now) # ops) = add_messages (add_message self m now) ops"

definition get_messages_in_window :: "SlidingWindowAnalyzer \<Rightarrow> int \<Rightarrow> int \<Rightarrow> message list" where
  "get_messages_in_window self minutes now =
     (let cutoff_time = now - timedelta_minutes minutes
      in filter (\<lambda>msg. (case actual_timestamp msg of None \<Rightarrow> now | Some t \<Rightarrow> t) > cutoff_time)
           (all_messages self))"

subsection \<open>Counter\<close>

text \<open>\<^verbatim>\<open>collections.Counter\<close> over a list: a dict from element to count, whose keys are in
  first-seen order.\<close>

fun counter_add :: "('a \<times> nat) list \<Rightarrow> 'a \<Rightarrow> ('a \<times> nat) list" where
  "counter_add [] x = [(x, 1)]"
| "counter_add ((k, n) # c) x = (if k = x then (k, Suc n) # c else (k, n) # counter_add c x)"

definition Counter :: "'a list \<Rightarrow> ('a \<times> nat) list" where
  "Counter xs = foldl counter_add [] xs"

definition counter_get :: "('a \<times> nat) list \<Rightarrow> 'a \<Rightarrow> nat" where
  "counter_get c k = (case map_of c k of None \<Rightarrow> 0 | Some n \<Rightarrow> n)"

subsection \<open>Sentiment statistics and message rate\<close>

record sentiment_stats =
  positive :: nat
  negative :: nat
  neutral :: nat
  total :: nat

definition get_sentiment_stats :: "SlidingWindowAnalyzer \<Rightarrow> int \<Rightarrow> int \<Rightarrow> sentiment_stats" where
  "get_sentiment_stats self minutes now =
     (let messages_in_window = get_messages_in_window self minutes now
      in if messages_in_window = [] then \<lparr>positive = 0, negative = 0, neutral = 0, total = 0\<rparr>
         else
           let sentiments = map (\<lambda>msg. case sentiment msg of None \<Rightarrow> ''Neutral'' | Some l \<Rightarrow> l)
                              messages_in_window;
               sentiment_counts = Counter sentiments
           in \<lparr>positive = counter_get sentiment_counts ''Positive'',
               negative = counter_get sentiment_counts ''Negative'',
               neutral = counter_get sentiment_counts ''Neutral'',
               total = length messages_in_window\<rparr>)"

datatype py_error = ZeroDivisionError

text \<open>True division \<^verbatim>\<open>/\<close> of two integers; the quotient is taken exactly (a rational), the
  rounding of the float result is outside the model.\<close>

definition py_truediv :: "int \<Rightarrow> int \<Rightarrow> py_error + rat" where
  "py_truediv a b = (if b = 0 then Inl ZeroDivisionError else Inr (of_int a / of_int b))"

definition get_message_rate :: "SlidingWindowAnalyzer \<Rightarrow> int \<Rightarrow> int \<Rightarrow> py_error + rat" where
  "get_message_rate self minutes now =
     (let messages_in_window = get_messages_in_window self minutes now
      in if messages_in_window = [] \<or> minutes = 0 then Inr 0
         else py_truediv (int (length messages_in_window)) minutes)"

subsection \<open>Tokenizer and top words\<close>

text \<open>
  The character classes of \<^verbatim>\<open>re\<close> and \<^verbatim>\<open>str\<close> follow the Unicode database of the Python
  runtime, which is not part of the repository.  Below 128 they are written out; from 128 on
  they are read from a parameter \<open>u\<close>: \<open>uni_isalnum\<close>, \<open>uni_isspace\<close> and \<open>uni_isdigit\<close> are
  \<^verbatim>\<open>str.isalnum\<close>, \<^verbatim>\<open>str.isspace\<close> and \<^verbatim>\<open>str.isdigit\<close> on one code point, and \<open>uni_lower\<close>
  is \<^verbatim>\<open>str.lower\<close> on a whole string (it may change the length and depends on the context
  of a letter).
\<close>

record unicode =
  uni_isalnum :: "nat \<Rightarrow> bool"
  uni_isspace :: "nat \<Rightarrow> bool"
  uni_isdigit :: "nat \<Rightarrow> bool"
  uni_lower :: "pystr \<Rightarrow> pystr"

text \<open>The class \<^verbatim>\<open>\s\<close>, which is also the whitespace of \<^verbatim>\<open>str.split\<close>.\<close>

definition is_space :: "unicode \<Rightarrow> nat \<Rightarrow> bool" where
  "is_space u c =
     (if c < 128 then (9 \<le> c \<and> c \<le> 13) \<or> (28 \<le> c \<and> c \<le> 32) else uni_isspace u c)"

definition is_digit :: "unicode \<Rightarrow> nat \<Rightarrow> bool" where
  "is_digit u c = (if c < 128 then 48 \<le> c \<and> c \<le> 57 else uni_isdigit u c)"

definition is_alnum :: "unicode \<Rightarrow> nat \<Rightarrow> bool" where
  "is_alnum u c =
     (if c < 128 then (48 \<le> c \<and> c \<le> 57) \<or> (65 \<le> c \<and> c \<le> 90) \<or> (97 \<le> c \<and> c \<le> 122)
      else uni_isalnum u c)"

text \<open>The class \<^verbatim>\<open>\w\<close>: alphanumeric characters and the underscore (code point 95).\<close>

definition is_word_char :: "unicode \<Rightarrow> nat \<Rightarrow> bool" where
  "is_word_char u c = (is_alnum u c \<or> c = 95)"

definition ascii_lower :: "nat \<Rightarrow> nat" where
  "ascii_lower c = (if 65 \<le> c \<and> c \<le> 90 then c + 32 else c)"

text \<open>\<^verbatim>\<open>str.lower()\<close>: on a string of ASCII only, letter by letter; otherwise by the
  database.\<close>

definition str_lower :: "unicode \<Rightarrow> pystr \<Rightarrow> pystr" where
  "str_lower u s = (if list_all (\<lambda>c. c < 128) s then map ascii_lower s else uni_lower u s)"

text \<open>\<^verbatim>\<open>re.sub(r'[^\w\s]', ' ', text)\<close>: every character that is neither a word character
  nor whitespace becomes a space (code point 32).\<close>

definition re_sub_non_word :: "unicode \<Rightarrow> pystr \<Rightarrow> pystr" where
  "re_sub_non_word u s = map (\<lambda>c. if is_word_char u c \<or> is_space u c then c else 32) s"

text \<open>\<^verbatim>\<open>str.split()\<close> with no argument: the maximal runs of non-whitespace characters.
  \<open>split_ws u cur s\<close> scans \<open>s\<close> with the run \<open>cur\<close> read so far.\<close>

fun split_ws :: "unicode \<Rightarrow> pystr \<Rightarrow> pystr \<Rightarrow> pystr list" where
  "split_ws u cur [] = (if cur = [] then [] else [cur])"
| "split_ws u cur (c # cs) =
     (if is_space u c then (if cur = [] then split_ws u [] cs else cur # split_ws u [] cs)
      else split_ws u (cur @ [c]) cs)"

definition py_split :: "unicode \<Rightarrow> pystr \<Rightarrow> pystr list" where
  "py_split u s = split_ws u [] s"

definition isdigit :: "unicode \<Rightarrow> pystr \<Rightarrow> bool" where
  "isdigit u s = (s \<noteq> [] \<and> list_all (is_digit u) s)"

fun py_join :: "pystr \<Rightarrow> pystr list \<Rightarrow> pystr" where
  "py_join sep [] = []"
| "py_join sep [x] = x"
| "py_join sep (x # y # ys) = x @ sep @ py_join sep (y # ys)"

definition stop_words :: "pystr set" where
  "stop_words = py ` {
     ''the'', ''a'', ''an'', ''and'', ''or'', ''but'', ''in'', ''on'', ''at'', ''to'', ''for'', ''of'',
     ''with'', ''by'', ''is'', ''are'', ''was'', ''were'', ''be'', ''been'', ''have'', ''has'', ''had'',
     ''do'', ''does'', ''did'', ''will'', ''would'', ''could'', ''should'', ''this'', ''that'',
     ''these'', ''those'', ''i'', ''me'', ''my'', ''myself'', ''we'', ''our'', ''ours'', ''ourselves'',
     ''you'', ''your'', ''yours'', ''yourself'', ''yourselves'', ''he'', ''him'', ''his'', ''himself'',
     ''she'', ''her'', ''hers'', ''herself'', ''it'', ''its'', ''itself'', ''they'', ''them'', ''their'',
     ''theirs'', ''themselves'', ''what'', ''which'', ''who'', ''whom'', ''whose'', ''why'', ''how'',
     ''where'', ''when'', ''so'', ''than'', ''too'', ''very'', ''can'', ''just'', ''now'', ''also''}"

definition extract_words :: "unicode \<Rightarrow> pystr \<Rightarrow> pystr list" where
  "extract_words u text0 =
     (let text1 = re_sub_non_word u (str_lower u text0);
          words = py_split u text1;
          filtered_words =
            filter (\<lambda>word. length word > 2 \<and> word \<notin> stop_words \<and> \<not> isdigit u word) words
      in filtered_words)"

text \<open>
  \<^verbatim>\<open>Counter.most_common(n)\<close> is \<^verbatim>\<open>heapq.nlargest(n, items, key=count)\<close>, which returns
  what \<^verbatim>\<open>sorted(items, key=count, reverse=True)[:n]\<close> returns: the sort is stable, so
  equal counts keep the order of the items, and \<open>n \<le> 0\<close> gives the empty list.
\<close>

definition most_common :: "('a \<times> nat) list \<Rightarrow> int \<Rightarrow> ('a \<times> nat) list" where
  "most_common c n = take (nat n) (sort_key (\<lambda>item. - int (snd item)) c)"

text \<open>The text that \<^verbatim>\<open>get_top_words\<close> tokenizes: the texts of the messages joined by a
  space, a message without the key counting as the empty text.\<close>

definition all_text :: "message list \<Rightarrow> pystr" where
  "all_text msgs = py_join (py '' '') (map (\<lambda>msg. case full_text msg of None \<Rightarrow> [] | Some t \<Rightarrow> t) msgs)"

text \<open>The caller passes \<open>top_n\<close> (the source's default value is 5).\<close>

definition get_top_words ::
  "unicode \<Rightarrow> SlidingWindowAnalyzer \<Rightarrow> int \<Rightarrow> int \<Rightarrow> int \<Rightarrow> (pystr \<times> nat) list" where
  "get_top_words u self minutes top_n now =
     (let messages_in_window = get_messages_in_window self minutes now
      in if messages_in_window = [] then []
         else
           let words = extract_words u (all_text messages_in_window);
               word_counts = Counter words
           in most_common word_counts top_n)"

subsection \<open>Ranking order of the top words\<close>

text \<open>\<open>first_index xs x\<close> is the position at which \<open>x\<close> is first seen in \<open>xs\<close>.  An entry
  ranks before another when its count is larger, or the counts are equal and its word is seen
  first.\<close>

definition first_index :: "'a list \<Rightarrow> 'a \<Rightarrow> nat" where
  "first_index xs x = length (takeWhile (\<lambda>y. y \<noteq> x) xs)"

definition ranks_before :: "'a list \<Rightarrow> ('a \<times> nat) \<Rightarrow> ('a \<times> nat) \<Rightarrow> bool" where
  "ranks_before ws p q =
     (snd q < snd p \<or> (snd p = snd q \<and> first_index ws (fst p) < first_index ws (fst q)))"

subsection \<open>Sample inputs\<close>

definition sample_message :: message where
  "sample_message = \<lparr>review_text = Some (py ''great service''), sentiment = Some ''Positive'',
     polarity = Some (4 / 5), full_text = Some (py ''great service''), timestamp = Some ''12:00:00'',
     word_count = Some 2, actual_timestamp = None\<rparr>"

definition sample_store :: SlidingWindowAnalyzer where
  "sample_store = add_messages init_analyzer
     [(sample_message, 0),
      (sample_message\<lparr>sentiment := Some ''Mixed''\<rparr>, 120000000),
      (sample_message\<lparr>sentiment := None\<rparr>, 540000000)]"

text \<open>The database on the code points below 256 (Latin-1), as a sample for texts of that
  range.\<close>

definition latin1 :: unicode where
  "latin1 = \<lparr>
     uni_isalnum = (\<lambda>c. c \<in> {170, 178, 179, 181, 185, 186, 188, 189, 190} \<or>
        (192 \<le> c \<and> c \<le> 255 \<and> c \<noteq> 215 \<and> c \<noteq> 247)),
     uni_isspace = (\<lambda>c. c = 133 \<or> c = 160),
     uni_isdigit = (\<lambda>c. c = 178 \<or> c = 179 \<or> c = 185),
     uni_lower = map (\<lambda>c. if (65 \<le> c \<and> c \<le> 90) \<or> (192 \<le> c \<and> c \<le> 222 \<and> c \<noteq> 215)
        then c + 32 else c)\<rparr>"

text \<open>Two reviews; code point 201 is the capital and 233 the small e with acute accent.\<close>

definition top_store :: SlidingWindowAnalyzer where
  "top_store = add_messages init_analyzer
     [(sample_message\<lparr>full_text :=
         Some (py ''Caf'' @ [201] @ py '', caf'' @ [233] @ py ''! sushi_roll 42 the'')\<rparr>, 0),
      (sample_message\<lparr>full_text :=
         Some (py ''SUSHI_ROLL caf'' @ [233] @ py '' taco taco'')\<rparr>, 60000000)]"

definition cafe :: pystr where
  "cafe = py ''caf'' @ [233]"

section \<open>Properties of the window store\<close>

lemma length_deque_append:
  "length d \<le> maxlen \<Longrightarrow> length (deque_append d x) \<le> maxlen"
  by (simp add: deque_append_def Let_def)

lemma drop_append_le: "k \<le> length xs \<Longrightarrow> drop k (xs @ ys) = drop k xs @ ys"
  by simp

lemma deque_append_drop:
  assumes "length d \<le> maxlen"
  shows "deque_append d x = drop (Suc (length d) - maxlen) (d @ [x])"
proof (cases "maxlen < Suc (length d)")
  case True
  with assms have k: "Suc (length d) - maxlen = Suc 0" by arith
  from True have "deque_append d x = tl (d @ [x])" by (simp add: deque_append_def)
  also have "\<dots> = drop (Suc 0) (d @ [x])" by (simp only: drop_Suc drop_0)
  finally show ?thesis by (simp only: k)
next
  case False
  then show ?thesis by (simp add: deque_append_def)
qed

lemma add_messages_drop:
  "length (all_messages self) \<le> maxlen \<Longrightarrow>
   all_messages (add_messages self ops) =
     drop (length (all_messages self) + length ops - maxlen)
       (all_messages self @ map (\<lambda>(m, now). stamp m now) ops)"
proof (induction ops arbitrary: self)
  case Nil
  then show ?case by simp
next
  case (Cons op ops)
  obtain m now where op: "op = (m, now)" by (cases op)
  define d where "d = all_messages self"
  define x where "x = stamp m now"
  define rest where "rest = map (\<lambda>(m, now). stamp m now) ops"
  define k where "k = Suc (length d) - maxlen"
  define self' where "self' = add_message self m now"
  have d_le: "length d \<le> maxlen" using Cons.prems by (simp add: d_def)
  have d': "all_messages self' = drop k (d @ [x])"
    using deque_append_drop [OF d_le, of x]
    by (simp add: self'_def add_message_def d_def x_def k_def)
  have len': "length (all_messages self') \<le> maxlen"
    using length_deque_append [OF d_le, of x]
    by (simp add: self'_def add_message_def d_def x_def)
  have k_le: "k \<le> length (d @ [x])" by (simp add: k_def)
  have len_eq: "length (all_messages self') = Suc (length d) - k"
    by (simp add: d')
  have "drop k ((d @ [x]) @ rest) = drop k (d @ [x]) @ rest"
    using k_le by (rule drop_append_le)
  then have app: "all_messages self' @ rest = drop k (d @ x # rest)"
    by (simp only: d' append_assoc append_Cons append_Nil)
  have idx: "length (all_messages self') + length ops - maxlen + k
      = length d + Suc (length ops) - maxlen"
    using d_le unfolding len_eq k_def by arith
  have "all_messages (add_messages self (op # ops)) = all_messages (add_messages self' ops)"
    by (simp add: op self'_def)
  also have "\<dots> = drop (length (all_messages self') + length ops - maxlen)
      (all_messages self' @ rest)"
    unfolding rest_def by (rule Cons.IH [OF len'])
  also have "\<dots> = drop (length d + Suc (length ops) - maxlen) (d @ x # rest)"
    unfolding app drop_drop idx ..
  finally show ?case
    by (simp add: d_def x_def rest_def op)
qed


text \<open>
  C3.  For every sequence of ingest operations applied to the analyzer as \<^verbatim>\<open>__init__\<close>
  leaves it, the store never holds more than 10000 messages; it holds the last 10000 of the
  inserted messages (all of them when fewer were inserted), oldest first, so after
  \<open>10000 + k\<close> insertions the first \<open>k\<close> are gone and exactly 10000 remain.
\<close>

theorem window_store_capacity:
  "length (all_messages (add_messages init_analyzer ops)) \<le> 10000 \<and>
   all_messages (add_messages init_analyzer ops) =
     drop (length ops - 10000) (map (\<lambda>(m, now). stamp m now) ops) \<and>
   (length ops = 10000 + k \<longrightarrow>
      all_messages (add_messages init_analyzer ops) = drop k (map (\<lambda>(m, now). stamp m now) ops) \<and>
      length (all_messages (add_messages init_analyzer ops)) = 10000)"
proof -
  have init: "length (all_messages init_analyzer) \<le> maxlen"
    by (simp add: init_analyzer_def)
  have eq: "all_messages (add_messages init_analyzer ops) =
      drop (length ops - 10000) (map (\<lambda>(m, now). stamp m now) ops)"
    using add_messages_drop [OF init, of ops] by (simp add: init_analyzer_def maxlen_def)
  have "length (drop (length ops - 10000) (map (\<lambda>(m, now). stamp m now) ops)) \<le> 10000"
    by simp
  moreover have "length ops = 10000 + k \<Longrightarrow>
      length (drop (length ops - 10000) (map (\<lambda>(m, now). stamp m now) ops)) = 10000 \<and>
      length ops - 10000 = k"
    by simp
  ultimately show ?thesis unfolding eq by metis
qed

theorem window_store_capacity_witness:
  "length (replicate 10003 (sample_message, 7::int)) = 10000 + 3 \<and>
   all_messages (add_messages init_analyzer (replicate 10003 (sample_message, 7))) =
     drop 3 (map (\<lambda>(m, now). stamp m now) (replicate 10003 (sample_message, 7))) \<and>
   length (all_messages (add_messages init_analyzer (replicate 10003 (sample_message, 7)))) = 10000"
proof -
  have h: "length (replicate 10003 (sample_message, 7::int)) = 10000 + 3"
    by (simp only: length_replicate)
  from window_store_capacity [of "replicate 10003 (sample_message, 7)" 3] h
  show ?thesis by blast
qed

lemma sample_store_messages:
  "all_messages sample_store =
     [stamp sample_message 0,
      stamp (sample_message\<lparr>sentiment := Some ''Mixed''\<rparr>) 120000000,
      stamp (sample_message\<lparr>sentiment := None\<rparr>) 540000000]"
  by (simp add: sample_store_def init_analyzer_def add_message_def deque_append_def maxlen_def)

text \<open>
  C9.  At a fixed clock reading and for fixed store contents, a shorter window is contained
  in a longer one: for \<open>d1 < d2\<close> every message of \<open>window(d1)\<close> is in \<open>window(d2)\<close>.
\<close>

theorem window_monotone:
  "d1 < d2 \<Longrightarrow>
   set (get_messages_in_window self d1 now) \<subseteq> set (get_messages_in_window self d2 now)"
  by (auto simp: get_messages_in_window_def timedelta_minutes_def split: option.splits)

theorem window_monotone_witness:
  "(1::int) < 10 \<and>
   get_messages_in_window sample_store 1 570000000 =
     [stamp (sample_message\<lparr>sentiment := None\<rparr>) 540000000] \<and>
   length (get_messages_in_window sample_store 10 570000000) = 3 \<and>
   set (get_messages_in_window sample_store 1 570000000)
     \<subseteq> set (get_messages_in_window sample_store 10 570000000)"
  using window_monotone [of 1 10 sample_store 570000000]
  by (simp add: get_messages_in_window_def timedelta_minutes_def sample_store_messages stamp_def)

section \<open>Properties of the aggregate queries\<close>

text \<open>
  C8.  The rate is the number of messages in the window divided by the number of minutes when
  the duration is positive and the window is not empty; it is 0 when the duration is 0 and
  when the window is empty; the division by zero is never reached.
\<close>

theorem message_rate_spec:
  "(0 < minutes \<and> get_messages_in_window self minutes now \<noteq> [] \<longrightarrow>
      get_message_rate self minutes now =
        Inr (of_nat (length (get_messages_in_window self minutes now)) / of_int minutes)) \<and>
   (minutes = 0 \<longrightarrow> get_message_rate self minutes now = Inr 0) \<and>
   (get_messages_in_window self minutes now = [] \<longrightarrow> get_message_rate self minutes now = Inr 0) \<and>
   get_message_rate self minutes now \<noteq> Inl ZeroDivisionError"
  by (simp add: get_message_rate_def py_truediv_def Let_def)

theorem message_rate_spec_witness:
  "(0::int) < 10 \<and> get_messages_in_window sample_store 10 570000000 \<noteq> [] \<and>
   get_message_rate sample_store 10 570000000 = Inr (3 / 10) \<and>
   get_message_rate sample_store 0 570000000 = Inr 0 \<and>
   get_messages_in_window init_analyzer 5 570000000 = [] \<and>
   get_message_rate init_analyzer 5 570000000 = Inr 0"
  using message_rate_spec [of 10 sample_store 570000000]
    message_rate_spec [of 0 sample_store 570000000]
    message_rate_spec [of 5 init_analyzer 570000000]
  by (simp add: get_messages_in_window_def timedelta_minutes_def sample_store_messages stamp_def
      init_analyzer_def)

lemma counter_get_counter_add:
  "counter_get (counter_add c x) k = counter_get c k + (if k = x then 1 else 0)"
  by (induction c x rule: counter_add.induct) (auto simp: counter_get_def)

lemma counter_get_foldl:
  "counter_get (foldl counter_add c xs) k = counter_get c k + count_list xs k"
  by (induction xs arbitrary: c) (auto simp: counter_get_counter_add)

lemma counter_get_Counter: "counter_get (Counter xs) k = count_list xs k"
  using counter_get_foldl [of "[]" xs k] by (simp add: Counter_def counter_get_def)

lemma count_list_map_filter:
  "count_list (map f xs) k = length (filter (\<lambda>x. f x = k) xs)"
  by (induction xs) auto

text \<open>
  C2, as the code has it.  The statistics count, among the messages of the window, those
  labelled \<^verbatim>\<open>Positive\<close>, those labelled \<^verbatim>\<open>Negative\<close>, and under \<open>neutral\<close> those labelled
  \<^verbatim>\<open>Neutral\<close> together with those that have no label; \<open>total\<close> is the size of the window.
  A message with any other label is counted in \<open>total\<close> only.
\<close>

theorem sentiment_stats_by_label:
  "get_sentiment_stats self minutes now =
     (let w = get_messages_in_window self minutes now
      in \<lparr>positive = length (filter (\<lambda>msg. sentiment msg = Some ''Positive'') w),
          negative = length (filter (\<lambda>msg. sentiment msg = Some ''Negative'') w),
          neutral = length (filter (\<lambda>msg. sentiment msg = None \<or> sentiment msg = Some ''Neutral'') w),
          total = length w\<rparr>)"
proof -
  have eq: "(case sentiment msg of None \<Rightarrow> ''Neutral'' | Some l \<Rightarrow> l) = k \<longleftrightarrow>
      (sentiment msg = None \<and> k = ''Neutral'') \<or> sentiment msg = Some k" for msg :: message and k
    by (cases "sentiment msg") auto
  show ?thesis
    by (simp add: get_sentiment_stats_def Let_def counter_get_Counter count_list_map_filter eq)
qed

text \<open>
  C2 as stated fails: a single message in the window whose label is the unknown
  \<^verbatim>\<open>Mixed\<close> gives \<open>neutral = 0\<close> with \<open>total = 1\<close>.
\<close>

theorem sentiment_unknown_label_counterexample:
  "get_sentiment_stats
     (add_message init_analyzer (sample_message\<lparr>sentiment := Some ''Mixed''\<rparr>) 0) 5 0 =
   \<lparr>positive = 0, negative = 0, neutral = 0, total = 1\<rparr>"
  by (simp add: get_sentiment_stats_def get_messages_in_window_def timedelta_minutes_def
      add_message_def init_analyzer_def deque_append_def maxlen_def stamp_def sample_message_def
      Counter_def counter_get_def)

subsection \<open>Tokens\<close>

lemma split_ws_tokens:
  "w \<in> set (split_ws u cur s) \<Longrightarrow> \<forall>c\<in>set cur. \<not> is_space u c \<Longrightarrow>
   w \<noteq> [] \<and> (\<forall>c\<in>set w. \<not> is_space u c \<and> (c \<in> set cur \<or> c \<in> set s))"
proof (induction s arbitrary: cur)
  case Nil
  then show ?case by (auto split: if_splits)
next
  case (Cons a s)
  show ?case
  proof (cases "is_space u a")
    case True
    with Cons.prems have "w = cur \<and> cur \<noteq> [] \<or> w \<in> set (split_ws u [] s)"
      by (auto split: if_splits)
    then show ?thesis
    proof
      assume "w = cur \<and> cur \<noteq> []"
      with Cons.prems(2) show ?thesis by auto
    next
      assume "w \<in> set (split_ws u [] s)"
      from Cons.IH [OF this] show ?thesis by auto
    qed
  next
    case False
    with Cons.prems have w: "w \<in> set (split_ws u (cur @ [a]) s)" by simp
    from False Cons.prems(2) have "\<forall>c\<in>set (cur @ [a]). \<not> is_space u c" by auto
    from Cons.IH [OF w this] show ?thesis by auto
  qed
qed

lemma concat_split_ws: "concat (split_ws u cur s) = cur @ filter (\<lambda>c. \<not> is_space u c) s"
  by (induction s arbitrary: cur) auto

lemma is_space_blank: "is_space u 32"
  by (simp add: is_space_def)

lemma text1_chars:
  "c \<in> set (re_sub_non_word u t) \<Longrightarrow> is_space u c \<or> is_word_char u c"
  by (auto simp: re_sub_non_word_def is_space_blank split: if_splits)

lemma extract_words_tokens:
  assumes "w \<in> set (extract_words u t)"
  shows "2 < length w" "w \<notin> stop_words" "\<not> isdigit u w"
    "\<forall>c\<in>set w. is_word_char u c \<and> \<not> is_space u c"
proof -
  from assms have w: "w \<in> set (py_split u (re_sub_non_word u (str_lower u t)))"
    and f: "2 < length w \<and> w \<notin> stop_words \<and> \<not> isdigit u w"
    by (auto simp: extract_words_def)
  from f show "2 < length w" "w \<notin> stop_words" "\<not> isdigit u w" by auto
  from w have "\<forall>c\<in>set w. \<not> is_space u c \<and> c \<in> set (re_sub_non_word u (str_lower u t))"
    using split_ws_tokens [of w u "[]" "re_sub_non_word u (str_lower u t)"]
    by (simp add: py_split_def)
  then show "\<forall>c\<in>set w. is_word_char u c \<and> \<not> is_space u c"
    using text1_chars by blast
qed

lemma keys_counter_add:
  "map fst (counter_add c x) = (if x \<in> fst ` set c then map fst c else map fst c @ [x])"
  by (induction c x rule: counter_add.induct) auto

lemma Counter_snoc: "Counter (xs @ [x]) = counter_add (Counter xs) x"
  by (simp add: Counter_def)

lemma keys_Counter: "fst ` set (Counter xs) = set xs"
proof (induction xs rule: rev_induct)
  case Nil
  then show ?case by (simp add: Counter_def)
next
  case (snoc x xs)
  have "fst ` set (Counter (xs @ [x])) = set (map fst (counter_add (Counter xs) x))"
    by (simp add: Counter_snoc)
  also have "\<dots> = set (xs @ [x])"
    using snoc by (auto simp: keys_counter_add)
  finally show ?case .
qed

lemma distinct_keys_Counter: "distinct (map fst (Counter xs))"
proof (induction xs rule: rev_induct)
  case Nil
  then show ?case by (simp add: Counter_def)
next
  case (snoc x xs)
  then show ?case
    by (simp add: Counter_snoc keys_counter_add)
qed

lemma Counter_entry:
  assumes "(w, c) \<in> set (Counter xs)"
  shows "c = count_list xs w" "w \<in> set xs"
proof -
  have "map_of (Counter xs) w = Some c"
    by (rule map_of_is_SomeI [OF distinct_keys_Counter assms])
  then have "counter_get (Counter xs) w = c" by (simp add: counter_get_def)
  then show "c = count_list xs w" by (simp add: counter_get_Counter)
  from assms have "w \<in> fst ` set (Counter xs)" by force
  then show "w \<in> set xs" by (simp add: keys_Counter)
qed

lemma Counter_has_entry:
  assumes "w \<in> set xs"
  shows "(w, count_list xs w) \<in> set (Counter xs)"
proof -
  from assms have "w \<in> fst ` set (Counter xs)" by (simp add: keys_Counter)
  then obtain c where c: "(w, c) \<in> set (Counter xs)" by auto
  with Counter_entry(1) [OF c] show ?thesis by simp
qed

lemma first_index_append1: "a \<in> set xs \<Longrightarrow> first_index (xs @ ys) a = first_index xs a"
  by (simp add: first_index_def takeWhile_append1)

lemma first_index_less: "a \<in> set xs \<Longrightarrow> first_index xs a < length xs"
  unfolding first_index_def by (induction xs) auto

lemma first_index_new: "x \<notin> set xs \<Longrightarrow> first_index (xs @ [x]) x = length xs"
  unfolding first_index_def by (induction xs) auto

lemma keys_Counter_first_seen:
  "sorted_wrt (\<lambda>a b. first_index xs a < first_index xs b) (map fst (Counter xs))"
proof (induction xs rule: rev_induct)
  case Nil
  then show ?case by (simp add: Counter_def)
next
  case (snoc x xs)
  let ?K = "map fst (Counter xs)"
  have K: "set ?K = set xs" using keys_Counter [of xs] by simp
  have old: "sorted_wrt (\<lambda>a b. first_index (xs @ [x]) a < first_index (xs @ [x]) b) ?K"
    using snoc
    by (rule sorted_wrt_mono_rel [rotated]) (simp add: keys_Counter first_index_append1)
  show ?case
  proof (cases "x \<in> set xs")
    case True
    then show ?thesis using old by (simp add: Counter_snoc keys_counter_add keys_Counter)
  next
    case False
    have "first_index (xs @ [x]) a < first_index (xs @ [x]) x" if "a \<in> set ?K" for a
    proof -
      from that K have "a \<in> set xs" by simp
      then show ?thesis
        using False by (simp add: first_index_append1 first_index_new first_index_less)
    qed
    then have "\<forall>a\<in>set ?K. first_index (xs @ [x]) a < first_index (xs @ [x]) x" by blast
    with old False show ?thesis
      by (simp add: Counter_snoc keys_counter_add keys_Counter sorted_wrt_append)
  qed
qed

lemma insort_ranks:
  "sorted_wrt (ranks_before ws) ys \<Longrightarrow>
   \<forall>y\<in>set ys. first_index ws (fst x) < first_index ws (fst y) \<Longrightarrow>
   sorted_wrt (ranks_before ws) (insort_key (\<lambda>item. - int (snd item)) x ys)"
proof (induction ys)
  case Nil
  then show ?case by simp
next
  case (Cons y ys)
  show ?case
  proof (cases "snd y \<le> snd x")
    case True
    have "ranks_before ws x z" if "z \<in> set (y # ys)" for z
    proof -
      have "snd z \<le> snd y" using that Cons.prems(1) by (auto simp: ranks_before_def)
      with True have "snd z \<le> snd x" by simp
      moreover have "first_index ws (fst x) < first_index ws (fst z)"
        using that Cons.prems(2) by auto
      ultimately show ?thesis by (auto simp: ranks_before_def)
    qed
    with True Cons.prems(1) show ?thesis by simp
  next
    case False
    then have yx: "ranks_before ws y x" by (simp add: ranks_before_def)
    from Cons.prems have "sorted_wrt (ranks_before ws) (insort_key (\<lambda>item. - int (snd item)) x ys)"
      by (intro Cons.IH) auto
    with False yx Cons.prems(1) show ?thesis
      by (auto simp: set_insort_key)
  qed
qed

lemma sort_key_ranks:
  "sorted_wrt (\<lambda>p q. first_index ws (fst p) < first_index ws (fst q)) c \<Longrightarrow>
   sorted_wrt (ranks_before ws) (sort_key (\<lambda>item. - int (snd item)) c)"
proof (induction c)
  case Nil
  then show ?case by simp
next
  case (Cons x c)
  then show ?case by (simp add: insort_ranks)
qed

lemma most_common_Counter_ranked:
  "sorted_wrt (ranks_before ws) (sort_key (\<lambda>item. - int (snd item)) (Counter ws))"
  using keys_Counter_first_seen [of ws] by (intro sort_key_ranks) (simp add: sorted_wrt_map)

lemma extract_words_Nil: "extract_words u [] = []"
  by (simp add: extract_words_def re_sub_non_word_def str_lower_def ascii_lower_def py_split_def)

lemma get_top_words_eq:
  "get_top_words u self minutes top_n now =
     most_common (Counter (extract_words u (all_text (get_messages_in_window self minutes now)))) top_n"
  by (simp add: get_top_words_def all_text_def Let_def extract_words_Nil most_common_def Counter_def)

text \<open>
  C4, as the code has it.  \<^verbatim>\<open>get_top_words\<close> joins the texts of the window with spaces,
  lower-cases the result, turns every character that is neither a word character (\<^verbatim>\<open>\w\<close>:
  alphanumeric or underscore) nor whitespace into a space and splits on whitespace; the words
  \<open>ws\<close> it counts are the tokens that are longer than 2, are no stop words and are not purely
  numeric, and each of them consists of word characters.  Of the result \<open>r\<close>: it is empty when
  the window is empty; it has \<open>min(top_n, number of distinct counted words)\<close> entries (none
  for \<open>top_n \<le> 0\<close>); every entry pairs a counted word with its number of occurrences, which
  is at least 1; the entries are in descending order of count, equal counts in first-seen
  order; and every counted word that is not in \<open>r\<close> ranks after all entries of \<open>r\<close>.  This
  holds for every Unicode database \<open>u\<close>.
\<close>

theorem top_words_spec:
  fixes self :: SlidingWindowAnalyzer and minutes now top_n :: int and u :: unicode
  defines "tokens \<equiv> py_split u (re_sub_non_word u
      (str_lower u (all_text (get_messages_in_window self minutes now))))"
  defines "ws \<equiv> filter (\<lambda>t. 2 < length t \<and> t \<notin> stop_words \<and> \<not> isdigit u t) tokens"
  defines "r \<equiv> get_top_words u self minutes top_n now"
  shows "(get_messages_in_window self minutes now = [] \<longrightarrow> r = []) \<and>
    length r = min (nat top_n) (card (set ws)) \<and>
    (\<forall>(t, c)\<in>set r. t \<in> set ws \<and> c = count_list ws t \<and> 1 \<le> c) \<and>
    (\<forall>t\<in>set ws. \<forall>ch\<in>set t. is_word_char u ch \<and> \<not> is_space u ch) \<and>
    sorted_wrt (ranks_before ws) r \<and>
    (\<forall>t\<in>set ws. t \<notin> fst ` set r \<longrightarrow> (\<forall>p\<in>set r. ranks_before ws p (t, count_list ws t)))"
proof -
  define R where "R = sort_key (\<lambda>item. - int (snd item)) (Counter ws)"
  have ws: "ws = extract_words u (all_text (get_messages_in_window self minutes now))"
    by (simp add: ws_def tokens_def extract_words_def)
  have r: "r = take (nat top_n) R"
    by (simp add: r_def ws R_def get_top_words_eq most_common_def)
  have R_set: "set R = set (Counter ws)" by (simp add: R_def)
  have R_sorted: "sorted_wrt (ranks_before ws) R"
    unfolding R_def by (rule most_common_Counter_ranked)
  have empty: "get_messages_in_window self minutes now = [] \<longrightarrow> r = []"
    by (simp add: r_def get_top_words_def)
  have "length R = length (map fst (Counter ws))" by (simp add: R_def)
  also have "\<dots> = card (set (map fst (Counter ws)))"
    using distinct_keys_Counter [of ws] by (simp only: distinct_card)
  also have "\<dots> = card (set ws)" using keys_Counter [of ws] by simp
  finally have len: "length r = min (nat top_n) (card (set ws))"
    by (simp add: r min.commute)
  have entries: "t \<in> set ws \<and> c = count_list ws t \<and> 1 \<le> c" if "(t, c) \<in> set r" for t c
  proof -
    from that have tc: "(t, c) \<in> set (Counter ws)"
      using R_set by (auto simp: r dest: in_set_takeD)
    from Counter_entry [OF tc] have c: "c = count_list ws t" and t: "t \<in> set ws" by auto
    from t have "count_list ws t \<noteq> 0" by (simp add: count_list_0_iff)
    with c t show ?thesis by simp
  qed
  have chars: "is_word_char u ch \<and> \<not> is_space u ch" if "t \<in> set ws" "ch \<in> set t" for t ch
    using extract_words_tokens(4) [of t u] that unfolding ws by blast
  have sorted: "sorted_wrt (ranks_before ws) r"
    unfolding r using R_sorted by (rule sorted_wrt_take)
  have top: "ranks_before ws p (t, count_list ws t)"
    if "t \<in> set ws" "t \<notin> fst ` set r" "p \<in> set r" for t p
  proof -
    from that(1) have "(t, count_list ws t) \<in> set R"
      by (simp add: R_set Counter_has_entry)
    then have "(t, count_list ws t) \<in> set (take (nat top_n) R) \<union> set (drop (nat top_n) R)"
      by (metis append_take_drop_id set_append)
    moreover from that(2) have "(t, count_list ws t) \<notin> set (take (nat top_n) R)"
      by (force simp: r)
    ultimately have d: "(t, count_list ws t) \<in> set (drop (nat top_n) R)" by blast
    from R_sorted have "sorted_wrt (ranks_before ws) (take (nat top_n) R @ drop (nat top_n) R)"
      by simp
    then have "\<forall>x\<in>set (take (nat top_n) R). \<forall>y\<in>set (drop (nat top_n) R). ranks_before ws x y"
      by (simp only: sorted_wrt_append) blast
    with d that(3) show ?thesis by (simp add: r)
  qed
  from empty len entries chars sorted top show ?thesis by blast
qed

lemma top_store_words:
  "filter (\<lambda>t. 2 < length t \<and> t \<notin> stop_words \<and> \<not> isdigit latin1 t)
     (py_split latin1 (re_sub_non_word latin1
        (str_lower latin1 (all_text (get_messages_in_window top_store 5 120000000))))) =
     [cafe, cafe, py ''sushi_roll'', py ''sushi_roll'', cafe, py ''taco'', py ''taco'']"
  by code_simp

lemma top_store_result:
  "get_top_words latin1 top_store 5 2 120000000 = [(cafe, 3), (py ''sushi_roll'', 2)]"
  by code_simp

theorem top_words_spec_witness:
  "get_messages_in_window init_analyzer 5 0 = [] \<and> get_top_words latin1 init_analyzer 5 2 0 = [] \<and>
   get_top_words latin1 top_store 5 2 120000000 = [(cafe, 3), (py ''sushi_roll'', 2)] \<and>
   sorted_wrt
     (ranks_before [cafe, cafe, py ''sushi_roll'', py ''sushi_roll'', cafe, py ''taco'', py ''taco''])
     [(cafe, 3), (py ''sushi_roll'', 2)] \<and>
   list_all (\<lambda>ch. is_word_char latin1 ch \<and> \<not> is_space latin1 ch) cafe \<and>
   ranks_before [cafe, cafe, py ''sushi_roll'', py ''sushi_roll'', cafe, py ''taco'', py ''taco'']
     (py ''sushi_roll'', 2) (py ''taco'', 2)"
proof -
  let ?ws = "[cafe, cafe, py ''sushi_roll'', py ''sushi_roll'', cafe, py ''taco'', py ''taco'']"
  note a = top_words_spec [of init_analyzer 5 0 latin1 2]
  note b = top_words_spec [of top_store 5 120000000 latin1 2, unfolded top_store_words top_store_result]
  have e: "get_messages_in_window init_analyzer 5 0 = []"
    by (simp add: get_messages_in_window_def init_analyzer_def)
  with a have e': "get_top_words latin1 init_analyzer 5 2 0 = []" by blast
  from b have s: "sorted_wrt (ranks_before ?ws) [(cafe, 3), (py ''sushi_roll'', 2)]" by blast
  have "cafe \<in> set ?ws" by simp
  with b have "\<forall>ch\<in>set cafe. is_word_char latin1 ch \<and> \<not> is_space latin1 ch" by blast
  then have w: "list_all (\<lambda>ch. is_word_char latin1 ch \<and> \<not> is_space latin1 ch) cafe"
    by (simp only: list_all_iff)
  have t: "py ''taco'' \<in> set ?ws" by simp
  have n: "py ''taco'' \<notin> fst ` set [(cafe, 3), (py ''sushi_roll'', 2 :: nat)]" by code_simp
  have p: "(py ''sushi_roll'', 2) \<in> set [(cafe, 3), (py ''sushi_roll'', 2 :: nat)]" by simp
  have c: "count_list ?ws (py ''taco'') = 2" by code_simp
  from b t n p have "ranks_before ?ws (py ''sushi_roll'', 2) (py ''taco'', count_list ?ws (py ''taco''))"
    by blast
  with c have r: "ranks_before ?ws (py ''sushi_roll'', 2) (py ''taco'', 2)" by simp
  from e e' s w r top_store_result show ?thesis by blast
qed

text \<open>
  C4 as stated fails where it says that non-alphanumeric separators are stripped: the
  underscore is not alphanumeric, yet the text \<^verbatim>\<open>snake_case\<close> is kept as the one token
  \<^verbatim>\<open>snake_case\<close> instead of the two tokens \<^verbatim>\<open>snake\<close> and \<^verbatim>\<open>case\<close>.
\<close>

theorem top_words_underscore_counterexample:
  "get_top_words latin1
     (add_message init_analyzer (sample_message\<lparr>full_text := Some (py ''snake_case'')\<rparr>) 0)
     5 5 0 = [(py ''snake_case'', 1)] \<and>
   \<not> list_all (is_alnum latin1) (py ''snake_case'')"
  by code_simp

end
